theory Spec2Isabelle
  imports Main "HOL-Library.Sublist"
begin

section \<open>Python values read from the YAML/JSON configuration\<close>

text \<open>
  The orchestrator works on the dictionaries that \<^verbatim>\<open>yaml.safe_load\<close> or
  \<^verbatim>\<open>json.load\<close> return. A dictionary is an association list with string keys
  (looked up with \<open>map_of\<close>). Floats and non-string keys are not modelled. A string is
  the list of its UTF-8 bytes.
\<close>

datatype pyval =
    PNone
  | PBool bool
  | PInt int
  | PStr string
  | PList "pyval list"
  | PDict "(string \<times> pyval) list"

text \<open>Exceptions: the built-in ones the interpreter raises on the values above, and
  \<open>LibraryError cls msg\<close> for whatever a library call (requests, paramiko, re, yaml,
  json, os) raises. All of them are subclasses of \<^verbatim>\<open>Exception\<close>.\<close>

datatype exn =
    KeyError string
  | TypeError string
  | AttributeError string
  | ValueError string
  | LibraryError string string

text \<open>\<^verbatim>\<open>str(e)\<close>, as an f-string renders \<^verbatim>\<open>{e}\<close>. For a KeyError it is the repr of
  the key (the keys used by the program are plain identifiers).\<close>

fun exn_str :: "exn \<Rightarrow> string" where
  "exn_str (KeyError k) = [CHR 0x27] @ k @ [CHR 0x27]"
| "exn_str (TypeError m) = m"
| "exn_str (AttributeError m) = m"
| "exn_str (ValueError m) = m"
| "exn_str (LibraryError c m) = m"

fun py_type_name :: "pyval \<Rightarrow> string" where
  "py_type_name PNone = ''NoneType''"
| "py_type_name (PBool b) = ''bool''"
| "py_type_name (PInt i) = ''int''"
| "py_type_name (PStr s) = ''str''"
| "py_type_name (PList xs) = ''list''"
| "py_type_name (PDict d) = ''dict''"

section \<open>The operations of Python the program applies to those values\<close>

text \<open>\<^verbatim>\<open>v[k]\<close> with a string key: a KeyError on a dictionary without the key, a
  TypeError on anything that is not a dictionary. (The message texts of TypeError and
  AttributeError are abbreviated: the interpreter's wording differs between versions.)\<close>

fun py_getitem :: "pyval \<Rightarrow> string \<Rightarrow> exn + pyval" where
  "py_getitem (PDict d) k = (case map_of d k of None \<Rightarrow> Inl (KeyError k) | Some x \<Rightarrow> Inr x)"
| "py_getitem (PStr s) k = Inl (TypeError ''string indices must be integers, not <str>'')"
| "py_getitem (PList xs) k = Inl (TypeError ''list indices must be integers or slices, not str'')"
| "py_getitem v k = Inl (TypeError (py_type_name v @ '' object is not subscriptable''))"

text \<open>\<^verbatim>\<open>v.get(k, default)\<close>: the stored value when the key is present (also when that
  value is None), the default otherwise; only a dictionary has the method.\<close>

fun py_get :: "pyval \<Rightarrow> string \<Rightarrow> pyval \<Rightarrow> exn + pyval" where
  "py_get (PDict d) k dflt = Inr (case map_of d k of None \<Rightarrow> dflt | Some x \<Rightarrow> x)"
| "py_get v k dflt = Inl (AttributeError (py_type_name v @ '' object has no attribute get''))"

text \<open>\<^verbatim>\<open>sub in s\<close> on two strings: \<open>sub\<close> occurs in \<open>s\<close> as a contiguous run.\<close>

fun str_contains :: "string \<Rightarrow> string \<Rightarrow> bool" where
  "str_contains sub [] = (sub = [])"
| "str_contains sub (c # cs) = (prefix sub (c # cs) \<or> str_contains sub cs)"

text \<open>\<^verbatim>\<open>k in v\<close> for a string \<open>k\<close>: key membership on a dictionary, element membership
  on a list, substring on a string.\<close>

fun py_in :: "string \<Rightarrow> pyval \<Rightarrow> exn + bool" where
  "py_in k (PDict d) = Inr (map_of d k \<noteq> None)"
| "py_in k (PList xs) = Inr (PStr k \<in> set xs)"
| "py_in k (PStr s) = Inr (str_contains k s)"
| "py_in k v = Inl (TypeError (''argument of type '' @ py_type_name v @ '' is not iterable''))"

text \<open>\<^verbatim>\<open>v in s\<close> for a string \<open>s\<close> (here the response body): only a string may stand on
  the left.\<close>

fun py_in_str :: "pyval \<Rightarrow> string \<Rightarrow> exn + bool" where
  "py_in_str (PStr sub) s = Inr (str_contains sub s)"
| "py_in_str v s =
     Inl (TypeError (''in <string> requires string as left operand, not '' @ py_type_name v))"

text \<open>\<^verbatim>\<open>n == v\<close> for an int \<open>n\<close>: Python's bool is an int (True is 1), every other
  type differs from an int.\<close>

fun py_int_eq :: "int \<Rightarrow> pyval \<Rightarrow> bool" where
  "py_int_eq n (PInt m) = (n = m)"
| "py_int_eq n (PBool b) = (n = (if b then 1 else 0))"
| "py_int_eq n v = False"

text \<open>\<^verbatim>\<open>for s in v\<close>: the elements of a list, the keys of a dictionary, the characters
  of a string; None, a bool and an int are not iterable.\<close>

fun py_iter :: "pyval \<Rightarrow> exn + pyval list" where
  "py_iter (PList xs) = Inr xs"
| "py_iter (PDict d) = Inr (map (\<lambda>kv. PStr (fst kv)) d)"
| "py_iter (PStr s) = Inr (map (\<lambda>c. PStr [c]) s)"
| "py_iter v = Inl (TypeError (py_type_name v @ '' object is not iterable''))"

text \<open>Decimal digits of an int, as \<^verbatim>\<open>str\<close> and an f-string print it.\<close>

fun show_nat :: "nat \<Rightarrow> string" where
  "show_nat n =
     (if n < 10 then [''0123456789'' ! n]
      else show_nat (n div 10) @ [''0123456789'' ! (n mod 10)])"

declare show_nat.simps [simp del]

definition show_int :: "int \<Rightarrow> string" where
  "show_int i = (if i < 0 then CHR ''-'' # show_nat (nat (- i)) else show_nat (nat i))"

text \<open>\<^verbatim>\<open>str(v)\<close>, which \<^verbatim>\<open>{v}\<close> in an f-string and \<^verbatim>\<open>%s\<close> in a log line produce. The
  text of a list or a dictionary is built from the repr of its elements; that function
  of the interpreter is a parameter (\<open>repr\<close>).\<close>

fun py_str :: "(pyval \<Rightarrow> string) \<Rightarrow> pyval \<Rightarrow> string" where
  "py_str repr PNone = ''None''"
| "py_str repr (PBool b) = (if b then ''True'' else ''False'')"
| "py_str repr (PInt i) = show_int i"
| "py_str repr (PStr s) = s"
| "py_str repr v = repr v"

text \<open>\<^verbatim>\<open>s.strip()\<close>: whitespace removed at both ends. The ASCII whitespace of Python's
  str is tab, newline, vertical tab, form feed, carriage return, the four separators
  0x1c to 0x1f and the space.\<close>

definition py_isspace :: "char \<Rightarrow> bool" where
  "py_isspace c =
     (c \<in> set [CHR 0x09, CHR 0x0A, CHR 0x0B, CHR 0x0C, CHR 0x0D,
                CHR 0x1C, CHR 0x1D, CHR 0x1E, CHR 0x1F, CHR 0x20])"

definition py_strip :: "string \<Rightarrow> string" where
  "py_strip s = rev (dropWhile py_isspace (rev (dropWhile py_isspace s)))"

section \<open>Effects: the outside world, the events, the exceptions\<close>

text \<open>
  Everything the program does to the outside is an event of the run, in order: a log
  record, an HTTP request, a step of an SSH session, and the entry of each of the three
  operations of the control loop.
\<close>

datatype level = INFO | WARNING | ERROR

datatype event =
    Log level string
  | CallHealthCheck pyval
  | CallRestartService pyval
  | CallNotifyDiscord string
  | HttpGet pyval pyval
  | HttpPost string string
  | SshConnect pyval pyval pyval pyval
  | SshExec pyval
  | SshClose

text \<open>What \<^verbatim>\<open>requests\<close> hands back: the status code, the body, and what
  \<^verbatim>\<open>raise_for_status()\<close> would raise (None when it returns).\<close>

record http_response =
  status_code :: int
  resp_text :: string
  raise_for_status :: "exn option"

text \<open>
  The libraries and the machines behind them are parameters of the model. \<open>'w\<close> is the
  state of the outside world; a call that can fail returns an exception or a result,
  together with the next state. Nothing is assumed about them.
\<close>

record 'w env =
  path_suffix :: "string \<Rightarrow> string"
  open_file :: "'w \<Rightarrow> string \<Rightarrow> (exn + string) \<times> 'w"
  yaml_safe_load :: "string \<Rightarrow> exn + pyval"
  json_load :: "string \<Rightarrow> exn + pyval"
  os_makedirs :: "'w \<Rightarrow> pyval \<Rightarrow> (exn + unit) \<times> 'w"
  rotating_file_handler :: "'w \<Rightarrow> pyval \<Rightarrow> (exn + unit) \<times> 'w"
  os_getenv :: "'w \<Rightarrow> string \<Rightarrow> string option"
  requests_get :: "'w \<Rightarrow> pyval \<Rightarrow> pyval \<Rightarrow> (exn + http_response) \<times> 'w"
  requests_post :: "'w \<Rightarrow> string \<Rightarrow> string \<Rightarrow> (exn + http_response) \<times> 'w"
  ssh_connect :: "'w \<Rightarrow> pyval \<Rightarrow> pyval \<Rightarrow> pyval \<Rightarrow> pyval \<Rightarrow> (exn + unit) \<times> 'w"
  ssh_exec_command :: "'w \<Rightarrow> pyval \<Rightarrow> (exn + unit) \<times> 'w"
  ssh_recv_exit_status :: "'w \<Rightarrow> int \<times> 'w"
  ssh_read_stdout :: "'w \<Rightarrow> (exn + string) \<times> 'w"
  ssh_read_stderr :: "'w \<Rightarrow> (exn + string) \<times> 'w"
  re_search :: "string \<Rightarrow> string \<Rightarrow> exn + bool"
  py_repr :: "pyval \<Rightarrow> string"

text \<open>A computation takes the world and returns an exception or a value, the events
  it produced, and the world it left. An exception keeps the events produced so far.\<close>

type_synonym ('a, 'w) io = "'w \<Rightarrow> (exn + 'a) \<times> event list \<times> 'w"

definition io_return :: "'a \<Rightarrow> ('a, 'w) io" where
  "io_return a w = (Inr a, [], w)"

definition io_pure :: "exn + 'a \<Rightarrow> ('a, 'w) io" where
  "io_pure r w = (r, [], w)"

definition io_emit :: "event \<Rightarrow> (unit, 'w) io" where
  "io_emit e w = (Inr (), [e], w)"

definition io_call :: "('w \<Rightarrow> (exn + 'a) \<times> 'w) \<Rightarrow> ('a, 'w) io" where
  "io_call f w = (case f w of (r, w1) \<Rightarrow> (r, [], w1))"

definition io_bind :: "('a, 'w) io \<Rightarrow> ('a \<Rightarrow> ('b, 'w) io) \<Rightarrow> ('b, 'w) io" where
  "io_bind m f w =
     (case m w of
        (Inl e, evs, w1) \<Rightarrow> (Inl e, evs, w1)
      | (Inr a, evs, w1) \<Rightarrow> (case f a w1 of (r, evs2, w2) \<Rightarrow> (r, evs @ evs2, w2)))"

text \<open>\<^verbatim>\<open>try: m  except Exception as e: h e\<close>\<close>

definition io_catch :: "('a, 'w) io \<Rightarrow> (exn \<Rightarrow> ('a, 'w) io) \<Rightarrow> ('a, 'w) io" where
  "io_catch m h w =
     (case m w of
        (Inl e, evs, w1) \<Rightarrow> (case h e w1 of (r, evs2, w2) \<Rightarrow> (r, evs @ evs2, w2))
      | (Inr a, evs, w1) \<Rightarrow> (Inr a, evs, w1))"

section \<open>The orchestrator\<close>

subsection \<open>Config loader and logging setup\<close>

text \<open>\<^verbatim>\<open>load_config\<close>: the file is opened first, then the suffix of the path selects
  the parser; any other suffix raises ValueError.\<close>

definition load_config :: "'w env \<Rightarrow> string \<Rightarrow> (pyval, 'w) io" where
  "load_config env path =
     io_bind (io_call (\<lambda>w. open_file env w path)) (\<lambda>f.
       if path_suffix env path \<in> set [''.yaml'', ''.yml''] then io_pure (yaml_safe_load env f)
       else if path_suffix env path = ''.json'' then io_pure (json_load env f)
       else io_pure (Inl (ValueError ''Unsupported config format. Use .yaml, .yml or .json'')))"

text \<open>\<^verbatim>\<open>setup_logging\<close>: the directory of the log file is created, then the rotating
  file handler opens the file; the console handler cannot fail.\<close>

definition setup_logging :: "'w env \<Rightarrow> pyval \<Rightarrow> (unit, 'w) io" where
  "setup_logging env log_file =
     io_bind (io_call (\<lambda>w. os_makedirs env w log_file)) (\<lambda>_.
       io_call (\<lambda>w. rotating_file_handler env w log_file))"

subsection \<open>SSH helper\<close>

text \<open>\<^verbatim>\<open>run_ssh\<close>: connect, run one command, wait for its exit status, read both
  streams, close. \<^verbatim>\<open>client.close()\<close> is the last statement before the return; there is
  no \<^verbatim>\<open>try\<close> in the function.\<close>

definition run_ssh :: "'w env \<Rightarrow> pyval \<Rightarrow> pyval \<Rightarrow> (int \<times> string \<times> string, 'w) io" where
  "run_ssh env server command =
     io_bind (io_pure (py_getitem server ''host'')) (\<lambda>host.
     io_bind (io_pure (py_get server ''port'' (PInt 22))) (\<lambda>port.
     io_bind (io_pure (py_get server ''username'' PNone)) (\<lambda>username.
     io_bind (io_pure (py_get server ''private_key'' PNone)) (\<lambda>private_key.
     io_bind (io_emit (SshConnect host port username private_key)) (\<lambda>_.
     io_bind (io_call (\<lambda>w. ssh_connect env w host port username private_key)) (\<lambda>_.
     io_bind (io_emit (SshExec command)) (\<lambda>_.
     io_bind (io_call (\<lambda>w. ssh_exec_command env w command)) (\<lambda>_.
     io_bind (io_call (\<lambda>w. case ssh_recv_exit_status env w of (c, w1) \<Rightarrow> (Inr c, w1)))
       (\<lambda>exit_code.
     io_bind (io_call (ssh_read_stdout env)) (\<lambda>raw_out.
     io_bind (io_call (ssh_read_stderr env)) (\<lambda>raw_err.
     io_bind (io_emit SshClose) (\<lambda>_.
     io_return (exit_code, py_strip raw_out, py_strip raw_err)))))))))))))"

subsection \<open>Health checks\<close>

text \<open>The first component of the pair \<^verbatim>\<open>health_check\<close> returns is a bool, or, after
  \<^verbatim>\<open>ok and re.search(...)\<close>, a match object or None. The caller tests its truth value.\<close>

datatype okval = OkBool bool | OkMatch | OkNone

fun truthy :: "okval \<Rightarrow> bool" where
  "truthy (OkBool b) = b"
| "truthy OkMatch = True"
| "truthy OkNone = False"

text \<open>\<^verbatim>\<open>re.search(pattern, out)\<close>: a pattern that is not a string is a TypeError.\<close>

fun py_re_search :: "'w env \<Rightarrow> pyval \<Rightarrow> string \<Rightarrow> exn + okval" where
  "py_re_search env (PStr p) out =
     (case re_search env p out of
        Inl e \<Rightarrow> Inl e
      | Inr found \<Rightarrow> Inr (if found then OkMatch else OkNone))"
| "py_re_search env v out = Inl (TypeError ''first argument must be string or compiled pattern'')"

definition health_check :: "'w env \<Rightarrow> pyval \<Rightarrow> (okval \<times> string, 'w) io" where
  "health_check env server =
     io_bind (io_emit (CallHealthCheck server)) (\<lambda>_.
     io_bind (io_pure (py_getitem server ''health_check'')) (\<lambda>hc.
     io_bind (io_pure (py_getitem hc ''type'')) (\<lambda>hc_type.
     if hc_type = PStr ''http'' then
       io_catch
         (io_bind (io_pure (py_getitem hc ''url'')) (\<lambda>url.
          io_bind (io_pure (py_get hc ''timeout'' (PInt 5))) (\<lambda>tmo.
          io_bind (io_emit (HttpGet url tmo)) (\<lambda>_.
          io_bind (io_call (\<lambda>w. requests_get env w url tmo)) (\<lambda>r.
          io_bind (io_pure (py_get hc ''expected_status'' (PInt 200))) (\<lambda>expected.
          let ok = py_int_eq (status_code r) expected in
          io_bind (io_pure (py_in ''contains'' hc)) (\<lambda>has_contains.
          io_bind
            (if has_contains then
               (if ok then
                  io_bind (io_pure (py_getitem hc ''contains'')) (\<lambda>sub.
                    io_pure (py_in_str sub (resp_text r)))
                else io_return ok)
             else io_return ok) (\<lambda>ok.
          io_return (OkBool ok, ''HTTP '' @ show_int (status_code r))))))))))
         (\<lambda>e. io_return (OkBool False, ''HTTP error: '' @ exn_str e))
     else if hc_type = PStr ''remote_cmd'' then
       io_bind (io_pure (py_getitem hc ''command'')) (\<lambda>cmd.
       io_bind (run_ssh env server cmd) (\<lambda>(code, out, err).
       io_bind (io_pure (py_in ''expect_stdout_regex'' hc)) (\<lambda>has_regex.
       io_bind
         (if has_regex then
            (if code = 0 then
               io_bind (io_pure (py_getitem hc ''expect_stdout_regex'')) (\<lambda>pat.
                 io_pure (py_re_search env pat out))
             else io_return (OkBool (code = 0)))
          else io_return (OkBool (code = 0))) (\<lambda>ok.
       io_return (ok, ''exit='' @ show_int code @ '', out='' @ out @ '', err='' @ err)))))
     else io_return (OkBool False, ''Unknown health_check type''))))"

subsection \<open>Service restart\<close>

definition restart_service :: "'w env \<Rightarrow> pyval \<Rightarrow> (int \<times> string \<times> string, 'w) io" where
  "restart_service env server =
     io_bind (io_emit (CallRestartService server)) (\<lambda>_.
     io_bind (io_pure (py_get server ''service'' PNone)) (\<lambda>service.
     io_bind (io_pure (py_get server ''restart_command''
                (PStr (''sudo systemctl restart '' @ py_str (py_repr env) service))))
       (\<lambda>restart_cmd.
     run_ssh env server restart_cmd)))"

subsection \<open>Discord notification\<close>

definition notify_discord :: "'w env \<Rightarrow> string \<Rightarrow> (unit, 'w) io" where
  "notify_discord env message =
     io_bind (io_emit (CallNotifyDiscord message)) (\<lambda>_.
     io_bind (io_call (\<lambda>w. (Inr (os_getenv env w ''DISCORD_WEBHOOK''), w))) (\<lambda>webhook.
     case webhook of
       None \<Rightarrow> io_emit (Log ERROR ''DISCORD_WEBHOOK not set. Skipping notification.'')
     | Some url \<Rightarrow>
         if url = [] then io_emit (Log ERROR ''DISCORD_WEBHOOK not set. Skipping notification.'')
         else
           io_catch
             (io_bind (io_emit (HttpPost url message)) (\<lambda>_.
              io_bind (io_call (\<lambda>w. requests_post env w url message)) (\<lambda>resp.
              io_bind (io_pure (case raise_for_status resp of
                                  None \<Rightarrow> Inr () | Some e \<Rightarrow> Inl e)) (\<lambda>_.
              io_emit (Log INFO ''Notification sent to Discord.'')))))
             (\<lambda>e. io_emit (Log ERROR (''Discord notification failed: '' @ exn_str e)))))"

subsection \<open>Main logic\<close>

text \<open>The warning sign U+26A0 U+FE0F that starts the notification, in UTF-8.\<close>

definition warning_sign :: string where
  "warning_sign = [CHR 0xE2, CHR 0x9A, CHR 0xA0, CHR 0xEF, CHR 0xB8, CHR 0x8F]"

text \<open>The body of the \<^verbatim>\<open>for s in servers\<close> loop; \<^verbatim>\<open>s\<close> is never assigned to, so
  \<^verbatim>\<open>s["name"]\<close> is read once here.\<close>

definition process_server :: "'w env \<Rightarrow> pyval \<Rightarrow> (unit, 'w) io" where
  "process_server env s =
     io_bind (io_pure (py_getitem s ''name'')) (\<lambda>name.
     let label = py_str (py_repr env) name in
     io_bind (io_emit (Log INFO (''['' @ label @ ''] Checking health...''))) (\<lambda>_.
     io_bind (health_check env s) (\<lambda>(healthy, detail).
     if truthy healthy then io_emit (Log INFO (''['' @ label @ ''] Healthy: '' @ detail))
     else
       io_bind (io_emit (Log WARNING (''['' @ label @ ''] Unhealthy: '' @ detail))) (\<lambda>_.
       io_bind (restart_service env s) (\<lambda>(code, out, err).
       let ok = (code = 0);
           msg = ''Restart '' @ (if ok then ''OK'' else ''FAILED'') @ '': exit='' @ show_int code
                 @ '', out='' @ out @ '', err='' @ err
       in
       io_bind (io_emit (Log INFO (''['' @ label @ ''] '' @ msg))) (\<lambda>_.
       notify_discord env
         (warning_sign @ '' '' @ label @ '' unhealthy'' @ [CHR 0x0A] @ detail @ [CHR 0x0A] @ msg)))))))"

fun run_servers :: "'w env \<Rightarrow> pyval list \<Rightarrow> (unit, 'w) io" where
  "run_servers env [] = io_return ()"
| "run_servers env (s # ss) = io_bind (process_server env s) (\<lambda>_. run_servers env ss)"

definition run_orchestrator :: "'w env \<Rightarrow> string \<Rightarrow> (unit, 'w) io" where
  "run_orchestrator env config_file =
     io_bind (load_config env config_file) (\<lambda>cfg.
     io_bind (io_pure (py_get cfg ''log_file'' (PStr ''logs/orchestrator.log''))) (\<lambda>log_file.
     io_bind (setup_logging env log_file) (\<lambda>_.
     io_bind (io_pure (py_get cfg ''servers'' (PList []))) (\<lambda>servers.
     io_bind (io_pure (py_iter servers)) (\<lambda>items.
     run_servers env items)))))"

subsection \<open>Counting what a run did\<close>

text \<open>A health evaluation is an entry of \<^verbatim>\<open>health_check\<close>, a remediation attempt an
  entry of \<^verbatim>\<open>restart_service\<close>, a notification attempt an entry of \<^verbatim>\<open>notify_discord\<close>.\<close>

fun is_health_eval :: "event \<Rightarrow> bool" where
  "is_health_eval (CallHealthCheck s) = True"
| "is_health_eval e = False"

fun is_remediation :: "event \<Rightarrow> bool" where
  "is_remediation (CallRestartService s) = True"
| "is_remediation e = False"

fun is_notification :: "event \<Rightarrow> bool" where
  "is_notification (CallNotifyDiscord m) = True"
| "is_notification e = False"

definition health_evals :: "event list \<Rightarrow> nat" where
  "health_evals evs = length (filter is_health_eval evs)"

definition remediations :: "event list \<Rightarrow> nat" where
  "remediations evs = length (filter is_remediation evs)"

definition notifications :: "event list \<Rightarrow> nat" where
  "notifications evs = length (filter is_notification evs)"

section \<open>Example machines and configurations\<close>

text \<open>A stand-in for \<^verbatim>\<open>Path(p).suffix\<close> on plain file names: the text from the last
  dot on.\<close>

definition last_dot_suffix :: "string \<Rightarrow> string" where
  "last_dot_suffix p =
     (if CHR ''.'' \<in> set p then CHR ''.'' # rev (takeWhile (\<lambda>c. c \<noteq> CHR ''.'') (rev p)) else [])"

text \<open>A stand-in for \<^verbatim>\<open>re.search\<close> that knows the one pattern of the examples: \<^verbatim>\<open>^OK$\<close>
  is found in \<^verbatim>\<open>OK\<close> and in \<^verbatim>\<open>OK\<close> followed by one newline, and nowhere else.\<close>

definition lab_re_search :: "string \<Rightarrow> string \<Rightarrow> exn + bool" where
  "lab_re_search p s =
     (if p = ''^OK$'' then Inr (s = ''OK'' \<or> s = ''OK'' @ [CHR 0x0A])
      else Inl (LibraryError ''re.error'' ''pattern outside the examples''))"

text \<open>
  A laboratory where every machine is up: any URL answers 200 with the body
  \<^verbatim>\<open>not ready yet\<close>, any SSH command exits 0 printing \<^verbatim>\<open>FAIL\<close>, the webhook variable is
  not set. The world has no state of its own.
\<close>

definition lab_env :: "unit env" where
  "lab_env =
     \<lparr> path_suffix = last_dot_suffix,
       open_file = (\<lambda>w p. (Inr ''servers: []'', w)),
       yaml_safe_load = (\<lambda>f. Inr (PDict [(''servers'', PList [])])),
       json_load = (\<lambda>f. Inr (PDict [(''servers'', PList [])])),
       os_makedirs = (\<lambda>w p. (Inr (), w)),
       rotating_file_handler = (\<lambda>w p. (Inr (), w)),
       os_getenv = (\<lambda>w k. None),
       requests_get = (\<lambda>w url tmo.
         (Inr \<lparr> status_code = 200, resp_text = ''not ready yet'', raise_for_status = None \<rparr>, w)),
       requests_post = (\<lambda>w url body.
         (Inr \<lparr> status_code = 204, resp_text = [], raise_for_status = None \<rparr>, w)),
       ssh_connect = (\<lambda>w host port username private_key. (Inr (), w)),
       ssh_exec_command = (\<lambda>w command. (Inr (), w)),
       ssh_recv_exit_status = (\<lambda>w. (0, w)),
       ssh_read_stdout = (\<lambda>w. (Inr (''FAIL'' @ [CHR 0x0A]), w)),
       ssh_read_stderr = (\<lambda>w. (Inr [], w)),
       re_search = lab_re_search,
       py_repr = (\<lambda>v. []) \<rparr>"

text \<open>The same laboratory with the SSH port of every host closed.\<close>

definition ssh_down_env :: "unit env" where
  "ssh_down_env =
     lab_env \<lparr> ssh_connect := (\<lambda>w host port username private_key.
       (Inl (LibraryError ''NoValidConnectionsError'' ''Unable to connect to port 22''), w)) \<rparr>"

text \<open>The same laboratory where a command never finishes: \<^verbatim>\<open>exec_command\<close> times out
  on the open session.\<close>

definition ssh_timeout_env :: "unit env" where
  "ssh_timeout_env =
     lab_env \<lparr> ssh_exec_command := (\<lambda>w command.
       (Inl (LibraryError ''socket.timeout'' ''timed out''), w)) \<rparr>"

text \<open>The same laboratory with a webhook configured that answers 500.\<close>

definition webhook_500_env :: "unit env" where
  "webhook_500_env =
     lab_env \<lparr> os_getenv := (\<lambda>w k. if k = ''DISCORD_WEBHOOK'' then Some ''https://hook'' else None),
               requests_post := (\<lambda>w url body.
                 (Inr \<lparr> status_code = 500, resp_text = [],
                        raise_for_status = Some (LibraryError ''HTTPError'' ''500 Server Error'') \<rparr>, w)) \<rparr>"

text \<open>The same laboratory with every web server refusing connections.\<close>

definition http_down_env :: "unit env" where
  "http_down_env =
     lab_env \<lparr> requests_get := (\<lambda>w url tmo.
       (Inl (LibraryError ''ConnectionError'' ''connection refused''), w)) \<rparr>"

definition web_server :: pyval where
  "web_server =
     PDict [(''name'', PStr ''web''), (''host'', PStr ''10.0.0.4''), (''service'', PStr ''nginx''),
            (''health_check'', PDict [(''type'', PStr ''http''),
                                      (''url'', PStr ''http://10.0.0.4/health''),
                                      (''contains'', PStr ''ready'')])]"

definition db_server :: pyval where
  "db_server =
     PDict [(''name'', PStr ''db''), (''host'', PStr ''10.0.0.5''),
            (''health_check'', PDict [(''type'', PStr ''remote_cmd''),
                                      (''command'', PStr ''pg_isready''),
                                      (''expect_stdout_regex'', PStr ''^OK$'')])]"

definition cache_server :: pyval where
  "cache_server =
     PDict [(''name'', PStr ''cache''), (''host'', PStr ''10.0.0.6''),
            (''restart_command'', PStr ''docker restart redis''),
            (''health_check'', PDict [(''type'', PStr ''tcp''), (''port'', PInt 6379)])]"

definition api_server :: pyval where
  "api_server =
     PDict [(''name'', PStr ''api''), (''host'', PStr ''10.0.0.8''),
            (''health_check'', PDict [(''type'', PStr ''http''),
                                      (''url'', PStr ''http://10.0.0.8/status''),
                                      (''timeout'', PInt 2),
                                      (''expected_status'', PInt 204)])]"

definition typeless_server :: pyval where
  "typeless_server =
     PDict [(''name'', PStr ''queue''), (''host'', PStr ''10.0.0.7''),
            (''health_check'', PDict [(''url'', PStr ''http://10.0.0.7/health'')])]"

section \<open>Laws of the effect combinators\<close>

lemma io_bind_pure_Inr [simp]: "io_bind (io_pure (Inr a)) f w = f a w"
  by (simp add: io_bind_def io_pure_def split: prod.splits)

lemma io_bind_pure_Inl [simp]: "io_bind (io_pure (Inl e)) f w = (Inl e, [], w)"
  by (simp add: io_bind_def io_pure_def)

lemma io_bind_return [simp]: "io_bind (io_return a) f w = f a w"
  by (simp add: io_bind_def io_return_def split: prod.splits)

lemma io_bind_emit [simp]:
  "io_bind (io_emit e) f w = (case f () w of (r, evs, w2) \<Rightarrow> (r, e # evs, w2))"
  by (simp add: io_bind_def io_emit_def)

lemma io_bind_call [simp]:
  "io_bind (io_call g) f w =
     (case g w of (Inl e, w1) \<Rightarrow> (Inl e, [], w1) | (Inr a, w1) \<Rightarrow> f a w1)"
  by (simp add: io_bind_def io_call_def split: prod.splits sum.splits)

lemma io_bind_assoc [simp]:
  "io_bind (io_bind m f) g = io_bind m (\<lambda>a. io_bind (f a) g)"
  by (rule ext) (simp add: io_bind_def split: prod.splits sum.splits)


lemma io_bind_Inl: "m w = (Inl e, evs, w1) \<Longrightarrow> io_bind m f w = (Inl e, evs, w1)"
  by (simp add: io_bind_def)

lemma io_bind_result:
  "io_bind m f w =
     (case m w of
        (Inl e, evs, w1) \<Rightarrow> (Inl e, evs, w1)
      | (Inr a, evs, w1) \<Rightarrow> (case f a w1 of (r, evs2, w2) \<Rightarrow> (r, evs @ evs2, w2)))"
  by (simp add: io_bind_def)


lemmas lab_defs = lab_env_def ssh_down_env_def ssh_timeout_env_def webhook_500_env_def
  http_down_env_def web_server_def db_server_def cache_server_def api_server_def
  typeless_server_def lab_re_search_def

section \<open>Configuration errors\<close>

text \<open>
  C10. A config path whose suffix is none of \<^verbatim>\<open>.yaml\<close>, \<^verbatim>\<open>.yml\<close>, \<^verbatim>\<open>.json\<close> makes the
  run fail before any server is processed: the run ends in an exception (the one
  \<^verbatim>\<open>open\<close> raised if the file cannot be opened, the ValueError of the loader otherwise)
  and its list of events is empty, so there was no health evaluation, no remote call,
  no notification and not even a log line.
\<close>

theorem unsupported_suffix_fails_before_any_server:
  assumes "path_suffix env path \<notin> {''.yaml'', ''.yml'', ''.json''}"
  shows "run_orchestrator env path w =
     (case open_file env w path of
        (Inl e, w1) \<Rightarrow> (Inl e, [], w1)
      | (Inr f, w1) \<Rightarrow>
          (Inl (ValueError ''Unsupported config format. Use .yaml, .yml or .json''), [], w1))"
  using assms
  by (simp add: run_orchestrator_def load_config_def io_bind_result[of "io_bind _ _"] io_pure_def
      split: prod.splits sum.splits)

theorem unsupported_suffix_witness:
  "path_suffix lab_env ''servers.toml'' \<notin> {''.yaml'', ''.yml'', ''.json''} \<and>
   run_orchestrator lab_env ''servers.toml'' () =
     (Inl (ValueError ''Unsupported config format. Use .yaml, .yml or .json''), [], ())"
proof -
  have suffix: "path_suffix lab_env ''servers.toml'' = ''.toml''"
    by (simp add: lab_env_def last_dot_suffix_def)
  have opened: "open_file lab_env () ''servers.toml'' = (Inr ''servers: []'', ())"
    by (simp add: lab_env_def)
  have hyp: "path_suffix lab_env ''servers.toml'' \<notin> {''.yaml'', ''.yml'', ''.json''}"
    by (simp add: suffix)
  from unsupported_suffix_fails_before_any_server [OF hyp, of "()"] opened hyp
  show ?thesis by simp
qed

section \<open>The remote executor\<close>

text \<open>The events of one \<^verbatim>\<open>run_ssh\<close> are a prefix of connect, exec, close, and the close
  is there only when the call returned.\<close>

lemma run_ssh_events:
  assumes "run_ssh env server cmd w = (r, evs, w')"
  shows "evs = [] \<or> (\<exists>h p u k. evs = [SshConnect h p u k] \<or> evs = [SshConnect h p u k, SshExec cmd]
            \<or> (evs = [SshConnect h p u k, SshExec cmd, SshClose] \<and> (\<exists>x. r = Inr x)))"
  using assms
  by (cases "py_getitem server ''host''"; cases "py_get server ''port'' (PInt 22)";
      cases "py_get server ''username'' PNone"; cases "py_get server ''private_key'' PNone")
     (auto simp: run_ssh_def io_emit_def io_return_def split: prod.splits sum.splits)

lemma run_ssh_returns_closed:
  assumes "run_ssh env server cmd w = (Inr x, evs, w')"
  shows "\<exists>h p u k. evs = [SshConnect h p u k, SshExec cmd, SshClose]"
  using assms
  by (cases "py_getitem server ''host''"; cases "py_get server ''port'' (PInt 22)";
      cases "py_get server ''username'' PNone"; cases "py_get server ''private_key'' PNone")
     (auto simp: run_ssh_def io_emit_def io_return_def split: prod.splits sum.splits)

lemma run_ssh_exec_event:
  assumes "run_ssh env server cmd w = (r, evs, w')" and "SshExec c \<in> set evs"
  shows "c = cmd"
  using run_ssh_events [OF assms(1)] assms(2) by auto

text \<open>Whenever \<^verbatim>\<open>run_ssh\<close> ends in an exception, whatever raised it, there is no close
  among its events.\<close>

lemma run_ssh_error_never_closes:
  assumes "run_ssh env server cmd w = (Inl e, evs, w')"
  shows "SshClose \<notin> set evs"
  using run_ssh_events [OF assms] by auto

text \<open>In the laboratory every command on a host with an address exits 0 and prints
  \<^verbatim>\<open>FAIL\<close>; the trailing newline is stripped.\<close>

lemma lab_run_ssh:
  "run_ssh lab_env (PDict d) cmd () =
     (case map_of d ''host'' of
        None \<Rightarrow> (Inl (KeyError ''host''), [], ())
      | Some h \<Rightarrow>
          (Inr (0, ''FAIL'', []),
           [SshConnect h (case map_of d ''port'' of None \<Rightarrow> PInt 22 | Some p \<Rightarrow> p)
              (case map_of d ''username'' of None \<Rightarrow> PNone | Some u \<Rightarrow> u)
              (case map_of d ''private_key'' of None \<Rightarrow> PNone | Some k \<Rightarrow> k),
            SshExec cmd, SshClose], ()))"
  by (simp add: run_ssh_def lab_env_def io_return_def py_strip_def py_isspace_def
      split: option.splits)

text \<open>
  C4. The claim: every call of the remote executor closes the session before it returns,
  also on the error paths. The code closes it on the normal path only: when
  \<^verbatim>\<open>exec_command\<close> times out on a session that \<^verbatim>\<open>connect\<close> has opened, the exception
  leaves \<^verbatim>\<open>run_ssh\<close> and \<^verbatim>\<open>client.close()\<close> is never reached. The run below connects,
  sends the command and ends in the timeout; there is no close among its events.
\<close>

theorem run_ssh_timeout_leaves_session_open:
  "run_ssh ssh_timeout_env db_server (PStr ''pg_isready'') () =
     (Inl (LibraryError ''socket.timeout'' ''timed out''),
      [SshConnect (PStr ''10.0.0.5'') (PInt 22) PNone PNone, SshExec (PStr ''pg_isready'')], ())"
  by (simp add: run_ssh_def lab_defs)

section \<open>The remediator\<close>

text \<open>
  C5 (amended). The command \<^verbatim>\<open>restart_service\<close> hands to the remote executor is the
  value of \<^verbatim>\<open>restart_command\<close>, unchanged, when the server has that key; otherwise it is
  \<^verbatim>\<open>sudo systemctl restart\<close> followed by the text of the \<^verbatim>\<open>service\<close> value; and when the
  server has neither key it is \<^verbatim>\<open>sudo systemctl restart None\<close>: the f-string prints the
  None that \<^verbatim>\<open>server.get("service")\<close> returns. Whatever command reaches
  \<^verbatim>\<open>exec_command\<close> during the call is that one.
\<close>

theorem restart_command_resolution:
  "(\<forall>c. map_of d ''restart_command'' = Some c \<longrightarrow>
      restart_service env (PDict d) w =
        (case run_ssh env (PDict d) c w of
           (r, evs, w') \<Rightarrow> (r, CallRestartService (PDict d) # evs, w'))) \<and>
   (\<forall>sv. map_of d ''restart_command'' = None \<and> map_of d ''service'' = Some sv \<longrightarrow>
      restart_service env (PDict d) w =
        (case run_ssh env (PDict d)
                (PStr (''sudo systemctl restart '' @ py_str (py_repr env) sv)) w of
           (r, evs, w') \<Rightarrow> (r, CallRestartService (PDict d) # evs, w'))) \<and>
   (map_of d ''restart_command'' = None \<and> map_of d ''service'' = None \<longrightarrow>
      restart_service env (PDict d) w =
        (case run_ssh env (PDict d) (PStr ''sudo systemctl restart None'') w of
           (r, evs, w') \<Rightarrow> (r, CallRestartService (PDict d) # evs, w'))) \<and>
   (\<forall>r evs w' c. restart_service env (PDict d) w = (r, evs, w') \<and> SshExec c \<in> set evs \<longrightarrow>
      c = (case map_of d ''restart_command'' of
             Some c' \<Rightarrow> c'
           | None \<Rightarrow>
               PStr (''sudo systemctl restart '' @
                     (case map_of d ''service'' of
                        Some sv \<Rightarrow> py_str (py_repr env) sv | None \<Rightarrow> ''None''))))"
proof -
  let ?cmd = "case map_of d ''restart_command'' of
             Some c' \<Rightarrow> c'
           | None \<Rightarrow>
               PStr (''sudo systemctl restart '' @
                     (case map_of d ''service'' of
                        Some sv \<Rightarrow> py_str (py_repr env) sv | None \<Rightarrow> ''None''))"
  have eq: "restart_service env (PDict d) w =
        (case run_ssh env (PDict d) ?cmd w of
           (r, evs, w') \<Rightarrow> (r, CallRestartService (PDict d) # evs, w'))"
    by (simp add: restart_service_def split: option.splits)
  have exec: "c = ?cmd" if "restart_service env (PDict d) w = (r, evs, w')" "SshExec c \<in> set evs"
    for r evs w' c
  proof -
    obtain r1 evs1 w1 where ran: "run_ssh env (PDict d) ?cmd w = (r1, evs1, w1)"
      by (cases "run_ssh env (PDict d) ?cmd w") auto
    with eq that have "SshExec c \<in> set evs1" by auto
    with ran show ?thesis by (rule run_ssh_exec_event)
  qed
  show ?thesis
    using exec by (auto simp: eq)
qed

theorem restart_command_resolution_witness:
  "map_of [(''name'', PStr ''cache''), (''host'', PStr ''10.0.0.6''),
            (''restart_command'', PStr ''docker restart redis''),
            (''health_check'', PDict [(''type'', PStr ''tcp''), (''port'', PInt 6379)])]
     ''restart_command'' = Some (PStr ''docker restart redis'') \<and>
   restart_service lab_env cache_server () =
     (Inr (0, ''FAIL'', []),
      [CallRestartService cache_server, SshConnect (PStr ''10.0.0.6'') (PInt 22) PNone PNone,
       SshExec (PStr ''docker restart redis''), SshClose], ()) \<and>
   restart_service lab_env web_server () =
     (Inr (0, ''FAIL'', []),
      [CallRestartService web_server, SshConnect (PStr ''10.0.0.4'') (PInt 22) PNone PNone,
       SshExec (PStr ''sudo systemctl restart nginx''), SshClose], ()) \<and>
   restart_service lab_env db_server () =
     (Inr (0, ''FAIL'', []),
      [CallRestartService db_server, SshConnect (PStr ''10.0.0.5'') (PInt 22) PNone PNone,
       SshExec (PStr ''sudo systemctl restart None''), SshClose], ())"
proof -
  let ?db = "[(''name'', PStr ''db''), (''host'', PStr ''10.0.0.5''),
            (''health_check'', PDict [(''type'', PStr ''remote_cmd''),
                                      (''command'', PStr ''pg_isready''),
                                      (''expect_stdout_regex'', PStr ''^OK$'')])]"
  let ?cache = "[(''name'', PStr ''cache''), (''host'', PStr ''10.0.0.6''),
            (''restart_command'', PStr ''docker restart redis''),
            (''health_check'', PDict [(''type'', PStr ''tcp''), (''port'', PInt 6379)])]"
  let ?web = "[(''name'', PStr ''web''), (''host'', PStr ''10.0.0.4''), (''service'', PStr ''nginx''),
            (''health_check'', PDict [(''type'', PStr ''http''),
                                      (''url'', PStr ''http://10.0.0.4/health''),
                                      (''contains'', PStr ''ready'')])]"
  from restart_command_resolution [of ?cache lab_env "()"]
  have a: "restart_service lab_env (PDict ?cache) () =
        (case run_ssh lab_env (PDict ?cache) (PStr ''docker restart redis'') () of
           (r, evs, w') \<Rightarrow> (r, CallRestartService (PDict ?cache) # evs, w'))"
    by simp
  from restart_command_resolution [of ?web lab_env "()"]
  have b: "restart_service lab_env (PDict ?web) () =
        (case run_ssh lab_env (PDict ?web) (PStr (''sudo systemctl restart '' @ py_str (py_repr lab_env) (PStr ''nginx''))) () of
           (r, evs, w') \<Rightarrow> (r, CallRestartService (PDict ?web) # evs, w'))"
    by simp
  from restart_command_resolution [of ?db lab_env "()"]
  have c: "restart_service lab_env (PDict ?db) () =
        (case run_ssh lab_env (PDict ?db) (PStr ''sudo systemctl restart None'') () of
           (r, evs, w') \<Rightarrow> (r, CallRestartService (PDict ?db) # evs, w'))"
    by simp
  from a b c show ?thesis
    by (simp add: cache_server_def web_server_def db_server_def lab_run_ssh)
qed

text \<open>The claim as the spec states it has an empty service name in the third case. A
  server with neither key gets \<^verbatim>\<open>sudo systemctl restart None\<close>.\<close>

theorem absent_service_is_rendered_as_None:
  "map_of [(''name'', PStr ''db''), (''host'', PStr ''10.0.0.5'')] ''restart_command'' = None \<and>
   map_of [(''name'', PStr ''db''), (''host'', PStr ''10.0.0.5'')] ''service'' = None \<and>
   fst (snd (restart_service lab_env (PDict [(''name'', PStr ''db''), (''host'', PStr ''10.0.0.5'')]) ())) =
     [CallRestartService (PDict [(''name'', PStr ''db''), (''host'', PStr ''10.0.0.5'')]),
      SshConnect (PStr ''10.0.0.5'') (PInt 22) PNone PNone,
      SshExec (PStr ''sudo systemctl restart None''), SshClose] \<and>
   PStr ''sudo systemctl restart None'' \<noteq> PStr ''sudo systemctl restart ''"
  by (simp add: restart_service_def lab_run_ssh)

section \<open>The health evaluator\<close>

text \<open>An exception of \<^verbatim>\<open>run_ssh\<close> in the remote-command branch is the outcome of the
  evaluation: nothing catches it.\<close>

lemma health_check_remote_cmd_propagates:
  assumes "py_getitem server ''health_check'' = Inr (PDict hc)"
    and "map_of hc ''type'' = Some (PStr ''remote_cmd'')"
    and "map_of hc ''command'' = Some cmd"
    and "run_ssh env server cmd w = (Inl e, evs, w1)"
  shows "health_check env server w = (Inl e, CallHealthCheck server # evs, w1)"
  using assms(1-3)
  by (simp add: health_check_def
      io_bind_Inl [where m = "run_ssh env server cmd" and w = w, OF assms(4)])

text \<open>
  C1. The claim: the health evaluation never raises, every failure becomes a verdict
  healthy=false. The HTTP branch does that (its body stands in a \<^verbatim>\<open>try\<close>); the
  remote-command branch calls \<^verbatim>\<open>run_ssh\<close> outside any \<^verbatim>\<open>try\<close>. Against a host whose
  SSH port is closed the evaluation ends in the exception of \<^verbatim>\<open>connect\<close>, not in a
  verdict.
\<close>

theorem health_check_raises_when_ssh_is_down:
  "health_check ssh_down_env db_server () =
     (Inl (LibraryError ''NoValidConnectionsError'' ''Unable to connect to port 22''),
      [CallHealthCheck db_server, SshConnect (PStr ''10.0.0.5'') (PInt 22) PNone PNone], ())"
  by (simp add: health_check_def run_ssh_def lab_defs)

text \<open>
  C8 (amended). When the health check has a type that is neither \<^verbatim>\<open>http\<close> nor
  \<^verbatim>\<open>remote_cmd\<close> (any other string, or a value that is not a string), the evaluation
  returns healthy=false with the detail \<^verbatim>\<open>Unknown health_check type\<close>, and does nothing
  else. When the health check has no \<^verbatim>\<open>type\<close> key at all, \<^verbatim>\<open>hc["type"]\<close> raises and the
  evaluation ends in that exception.
\<close>

theorem unknown_check_type_is_unhealthy:
  assumes "py_getitem server ''health_check'' = Inr hc"
  shows "(\<forall>t. py_getitem hc ''type'' = Inr t \<and> t \<noteq> PStr ''http'' \<and> t \<noteq> PStr ''remote_cmd'' \<longrightarrow>
            health_check env server w =
              (Inr (OkBool False, ''Unknown health_check type''), [CallHealthCheck server], w)) \<and>
         (\<forall>e. py_getitem hc ''type'' = Inl e \<longrightarrow>
            health_check env server w = (Inl e, [CallHealthCheck server], w))"
  using assms by (simp add: health_check_def io_return_def)

theorem unknown_check_type_witness:
  "py_getitem cache_server ''health_check'' =
     Inr (PDict [(''type'', PStr ''tcp''), (''port'', PInt 6379)]) \<and>
   py_getitem (PDict [(''type'', PStr ''tcp''), (''port'', PInt 6379)]) ''type'' = Inr (PStr ''tcp'') \<and>
   PStr ''tcp'' \<noteq> PStr ''http'' \<and> PStr ''tcp'' \<noteq> PStr ''remote_cmd'' \<and>
   health_check lab_env cache_server () =
     (Inr (OkBool False, ''Unknown health_check type''), [CallHealthCheck cache_server], ())"
proof -
  have hc: "py_getitem cache_server ''health_check'' =
      Inr (PDict [(''type'', PStr ''tcp''), (''port'', PInt 6379)])"
    by (simp add: cache_server_def)
  from unknown_check_type_is_unhealthy [OF hc, of lab_env "()"] hc
  show ?thesis by simp
qed

text \<open>The claim as the spec states it also promises the verdict for a missing type. A
  health check without the key ends in KeyError instead.\<close>

theorem missing_check_type_raises:
  "py_getitem typeless_server ''health_check'' =
     Inr (PDict [(''url'', PStr ''http://10.0.0.7/health'')]) \<and>
   map_of [(''url'', PStr ''http://10.0.0.7/health'')] ''type'' = None \<and>
   health_check lab_env typeless_server () =
     (Inl (KeyError ''type''), [CallHealthCheck typeless_server], ())"
  by (simp add: health_check_def lab_defs)



text \<open>
  C2 (amended). An HTTP check with \<^verbatim>\<open>contains: "ready"\<close> whose GET returns the expected
  status and the body \<^verbatim>\<open>not ready yet\<close> is healthy: the word \<^verbatim>\<open>ready\<close> occurs in that body,
  and the test is a substring test.
\<close>

theorem ready_substring_is_healthy:
  assumes "py_getitem server ''health_check'' = Inr (PDict hc)"
    and "map_of hc ''type'' = Some (PStr ''http'')"
    and "map_of hc ''url'' = Some url"
    and "tmo = (case map_of hc ''timeout'' of None \<Rightarrow> PInt 5 | Some t \<Rightarrow> t)"
    and "expected = (case map_of hc ''expected_status'' of None \<Rightarrow> PInt 200 | Some x \<Rightarrow> x)"
    and "map_of hc ''contains'' = Some (PStr ''ready'')"
    and "requests_get env w url tmo = (Inr r, w1)"
    and "py_int_eq (status_code r) expected"
    and "resp_text r = ''not ready yet''"
  shows "health_check env server w =
     (Inr (OkBool True, ''HTTP '' @ show_int (status_code r)),
      [CallHealthCheck server, HttpGet url tmo], w1)"
  using assms
  by (simp add: health_check_def io_catch_def io_return_def io_pure_def Let_def)

theorem ready_substring_witness:
  "py_getitem web_server ''health_check'' =
     Inr (PDict [(''type'', PStr ''http''), (''url'', PStr ''http://10.0.0.4/health''),
                 (''contains'', PStr ''ready'')]) \<and>
   requests_get lab_env () (PStr ''http://10.0.0.4/health'') (PInt 5) =
     (Inr \<lparr> status_code = 200, resp_text = ''not ready yet'', raise_for_status = None \<rparr>, ()) \<and>
   py_int_eq 200 (PInt 200) \<and>
   health_check lab_env web_server () =
     (Inr (OkBool True, ''HTTP 200''),
      [CallHealthCheck web_server, HttpGet (PStr ''http://10.0.0.4/health'') (PInt 5)], ())"
proof -
  let ?hc = "[(''type'', PStr ''http''), (''url'', PStr ''http://10.0.0.4/health''),
              (''contains'', PStr ''ready'')]"
  let ?r = "\<lparr> status_code = 200, resp_text = ''not ready yet'', raise_for_status = None \<rparr>"
  have h1: "py_getitem web_server ''health_check'' = Inr (PDict ?hc)"
    by (simp add: web_server_def)
  have h2: "map_of ?hc ''type'' = Some (PStr ''http'')" by simp
  have h3: "map_of ?hc ''url'' = Some (PStr ''http://10.0.0.4/health'')" by simp
  have h4: "PInt 5 = (case map_of ?hc ''timeout'' of None \<Rightarrow> PInt 5 | Some t \<Rightarrow> t)" by simp
  have h5: "PInt 200 = (case map_of ?hc ''expected_status'' of None \<Rightarrow> PInt 200 | Some x \<Rightarrow> x)"
    by simp
  have h6: "map_of ?hc ''contains'' = Some (PStr ''ready'')" by simp
  have up: "requests_get lab_env () (PStr ''http://10.0.0.4/health'') (PInt 5) = (Inr ?r, ())"
    by (simp add: lab_env_def)
  have h8: "py_int_eq (status_code ?r) (PInt 200)" by simp
  have h9: "resp_text ?r = ''not ready yet''" by simp
  have two: "show_int 200 = ''200''"
    by (simp add: show_int_def show_nat.simps)
  from ready_substring_is_healthy [OF h1 h2 h3 h4 h5 h6 up h8 h9] h1 up two
  show ?thesis by simp
qed

text \<open>The claim as the spec states it has healthy=false for that body. In the laboratory
  every URL answers 200 with the body \<^verbatim>\<open>not ready yet\<close>, and the web server, checked with
  \<^verbatim>\<open>contains: "ready"\<close>, is found healthy.\<close>

theorem not_ready_yet_counts_as_ready:
  "str_contains ''ready'' ''not ready yet'' \<and>
   fst (health_check lab_env web_server ()) = Inr (OkBool True, ''HTTP 200'')"
  by (simp add: health_check_def io_catch_def io_return_def io_pure_def lab_defs
      show_int_def show_nat.simps)



section \<open>The notifier\<close>

text \<open>
  C9. \<^verbatim>\<open>notify_discord\<close> always returns normally. When the webhook variable is unset
  (or empty) it logs one error and does nothing else: no HTTP request, the world
  unchanged. When it is set, an exception of the POST and an exception of
  \<^verbatim>\<open>raise_for_status\<close> both end in one logged error and a normal return.
\<close>

theorem notify_discord_never_fails_its_caller:
  "\<exists>evs w'. notify_discord env msg w = (Inr (), evs, w') \<and>
     (os_getenv env w ''DISCORD_WEBHOOK'' = None \<or> os_getenv env w ''DISCORD_WEBHOOK'' = Some []
        \<longrightarrow> w' = w \<and>
            evs = [CallNotifyDiscord msg,
                   Log ERROR ''DISCORD_WEBHOOK not set. Skipping notification.'']) \<and>
     (\<forall>url e w1. os_getenv env w ''DISCORD_WEBHOOK'' = Some url \<and> url \<noteq> [] \<and>
        requests_post env w url msg = (Inl e, w1)
        \<longrightarrow> w' = w1 \<and>
            evs = [CallNotifyDiscord msg, HttpPost url msg,
                   Log ERROR (''Discord notification failed: '' @ exn_str e)]) \<and>
     (\<forall>url resp e w1. os_getenv env w ''DISCORD_WEBHOOK'' = Some url \<and> url \<noteq> [] \<and>
        requests_post env w url msg = (Inr resp, w1) \<and> raise_for_status resp = Some e
        \<longrightarrow> w' = w1 \<and>
            evs = [CallNotifyDiscord msg, HttpPost url msg,
                   Log ERROR (''Discord notification failed: '' @ exn_str e)])"
  by (auto simp: notify_discord_def io_catch_def io_emit_def io_pure_def
      split: option.splits prod.splits sum.splits)

theorem notify_discord_witness:
  "os_getenv lab_env () ''DISCORD_WEBHOOK'' = None \<and>
   notify_discord lab_env ''db is down'' () =
     (Inr (), [CallNotifyDiscord ''db is down'',
               Log ERROR ''DISCORD_WEBHOOK not set. Skipping notification.''], ()) \<and>
   os_getenv webhook_500_env () ''DISCORD_WEBHOOK'' = Some ''https://hook'' \<and>
   raise_for_status (projr (fst (requests_post webhook_500_env () ''https://hook'' ''db is down'')))
     = Some (LibraryError ''HTTPError'' ''500 Server Error'') \<and>
   notify_discord webhook_500_env ''db is down'' () =
     (Inr (), [CallNotifyDiscord ''db is down'', HttpPost ''https://hook'' ''db is down'',
               Log ERROR ''Discord notification failed: 500 Server Error''], ())"
proof -
  have unset: "os_getenv lab_env () ''DISCORD_WEBHOOK'' = None"
    by (simp add: lab_env_def)
  have set: "os_getenv webhook_500_env () ''DISCORD_WEBHOOK'' = Some ''https://hook''"
    by (simp add: webhook_500_env_def lab_env_def)
  have post: "requests_post webhook_500_env () ''https://hook'' ''db is down'' =
      (Inr \<lparr> status_code = 500, resp_text = [],
             raise_for_status = Some (LibraryError ''HTTPError'' ''500 Server Error'') \<rparr>, ())"
    by (simp add: webhook_500_env_def lab_env_def)
  from notify_discord_never_fails_its_caller [of lab_env "''db is down''" "()"] unset
  have a: "notify_discord lab_env ''db is down'' () =
     (Inr (), [CallNotifyDiscord ''db is down'',
               Log ERROR ''DISCORD_WEBHOOK not set. Skipping notification.''], ())"
    by auto
  from notify_discord_never_fails_its_caller [of webhook_500_env "''db is down''" "()"]
  obtain evs w' where r: "notify_discord webhook_500_env ''db is down'' () = (Inr (), evs, w')"
    and c: "\<forall>url resp e w1. os_getenv webhook_500_env () ''DISCORD_WEBHOOK'' = Some url \<and> url \<noteq> [] \<and>
        requests_post webhook_500_env () url ''db is down'' = (Inr resp, w1) \<and>
        raise_for_status resp = Some e
        \<longrightarrow> w' = w1 \<and>
            evs = [CallNotifyDiscord ''db is down'', HttpPost url ''db is down'',
                   Log ERROR (''Discord notification failed: '' @ exn_str e)]"
    by blast
  from c set post have "evs = [CallNotifyDiscord ''db is down'', HttpPost ''https://hook'' ''db is down'',
                   Log ERROR (''Discord notification failed: '' @ exn_str (LibraryError ''HTTPError'' ''500 Server Error''))]"
    by (metis http_response.select_convs(3) list.distinct(1))
  with r have b: "notify_discord webhook_500_env ''db is down'' () =
     (Inr (), [CallNotifyDiscord ''db is down'', HttpPost ''https://hook'' ''db is down'',
               Log ERROR ''Discord notification failed: 500 Server Error''], ())"
    by simp
  from unset set post a b show ?thesis by simp
qed

section \<open>The control loop\<close>



lemma counts_append [simp]:
  "health_evals (xs @ ys) = health_evals xs + health_evals ys"
  "remediations (xs @ ys) = remediations xs + remediations ys"
  "notifications (xs @ ys) = notifications xs + notifications ys"
  by (simp_all add: health_evals_def remediations_def notifications_def)

lemma counts_Cons [simp]:
  "health_evals (e # xs) = (if is_health_eval e then 1 else 0) + health_evals xs"
  "remediations (e # xs) = (if is_remediation e then 1 else 0) + remediations xs"
  "notifications (e # xs) = (if is_notification e then 1 else 0) + notifications xs"
  by (simp_all add: health_evals_def remediations_def notifications_def)

lemma counts_Nil [simp]:
  "health_evals [] = 0" "remediations [] = 0" "notifications [] = 0"
  by (simp_all add: health_evals_def remediations_def notifications_def)



















end
